theory Spec2Isabelle
  imports Complex_Main "HOL-Library.Sublist" "HOL-Library.Multiset"
begin

section \<open>Conventions of the embedding\<close>

text \<open>
  The program is TypeScript. A JavaScript \<^verbatim>\<open>number\<close> is a double (IEEE 754 binary64).
  A finite double is modelled by the \<^typ>\<open>real\<close> it denotes, and every addition,
  subtraction, multiplication and division of the source rounds its exact result to
  the nearest double (section on double arithmetic below). \<^verbatim>\<open>NaN\<close>, the infinities
  (a result beyond the largest double) and the sign of zero are not part of the
  model; the program divides only behind a test that the divisor is not zero.

  Optional parameters with a default value are \<^typ>\<open>'a option\<close>; \<open>None\<close> is the
  omitted argument. Functions that mutate an argument return the mutated argument
  next to their result. Built-ins of the host (\<^verbatim>\<open>Intl.NumberFormat\<close>, number to
  string conversion, the local calendar) and the external date parser are parameters.
\<close>

type_synonym date = "int \<times> int \<times> int"
  \<comment> \<open>a calendar day as it is written in a \<^verbatim>\<open>YYYY-MM-DD\<close> string: year, month, day\<close>

record period =
  pstart :: date
  pend :: date

section \<open>Double arithmetic\<close>

text \<open>
  \<open>pow2 e\<close> is 2 to the power \<open>e\<close>. \<open>binExp n a\<close> is the binary exponent of a positive
  \<open>a\<close>, the \<open>e\<close> with \<open>pow2 e \<le> a < pow2 (e + 1)\<close>, found in at most \<open>n\<close> steps of
  doubling or halving; 1100 steps reach every exponent of a double. \<open>spacing x\<close> is
  the distance between neighbouring doubles around \<open>x\<close>: 52 binary places below the
  exponent of \<open>x\<close>, and \<open>pow2 (- 1074)\<close> in the subnormal range. \<open>fl x\<close> is the double
  nearest to \<open>x\<close>, a tie going to the even multiple of the spacing. The four
  operations of the source round their exact result with \<open>fl\<close>.
\<close>

definition pow2 :: "int \<Rightarrow> real" where
  "pow2 e = (if 0 \<le> e then 2 ^ nat e else 1 / 2 ^ nat (- e))"

fun binExp :: "nat \<Rightarrow> real \<Rightarrow> int" where
  "binExp 0 a = 0"
| "binExp (Suc n) a =
     (if a < 1 then binExp n (a * 2) - 1
      else if 2 \<le> a then binExp n (a / 2) + 1
      else 0)"

definition spacing :: "real \<Rightarrow> real" where
  "spacing x =
     (if \<bar>x\<bar> < pow2 (- 1022) then pow2 (- 1074)
      else pow2 (binExp 1100 \<bar>x\<bar> - 52))"

definition roundHalfEven :: "real \<Rightarrow> int" where
  "roundHalfEven x =
     (let n = \<lfloor>x\<rfloor>; r = x - of_int n
      in if r < 1 / 2 then n
         else if 1 / 2 < r then n + 1
         else if even n then n else n + 1)"

definition fl :: "real \<Rightarrow> real" where
  "fl x = of_int (roundHalfEven (x / spacing x)) * spacing x"

definition fadd :: "real \<Rightarrow> real \<Rightarrow> real" where
  "fadd a b = fl (a + b)"

definition fsub :: "real \<Rightarrow> real \<Rightarrow> real" where
  "fsub a b = fl (a - b)"

definition fmul :: "real \<Rightarrow> real \<Rightarrow> real" where
  "fmul a b = fl (a * b)"

definition fdiv :: "real \<Rightarrow> real \<Rightarrow> real" where
  "fdiv a b = fl (a / b)"

section \<open>utils/cost-calculations.ts\<close>

text \<open>
  \<^verbatim>\<open>Math.round\<close> gives the integer nearest to its argument, a tie going towards plus
  infinity; that integer is a double whenever the argument is one.
\<close>

definition Math_round :: "real \<Rightarrow> real" where
  "Math_round x = of_int \<lfloor>x + 1 / 2\<rfloor>"

definition calculatePercentageChange :: "real \<Rightarrow> real \<Rightarrow> real" where
  "calculatePercentageChange current previous =
     (if previous = 0 then (if current > 0 then 100 else 0)
      else (let change = fmul (fdiv (fsub current previous) previous) 100
            in fdiv (Math_round (fmul change 100)) 100))"


datatype trend = increasing | decreasing | stable

definition determineTrend :: "real \<Rightarrow> real option \<Rightarrow> trend" where
  "determineTrend percentageChange threshold =
     (let th = (case threshold of None \<Rightarrow> 5 | Some t \<Rightarrow> t);
          absChange = \<bar>percentageChange\<bar>
      in if absChange < th then stable
         else if percentageChange > 0 then increasing else decreasing)"

record host =
  intlCurrencyFormat :: "string \<Rightarrow> real \<Rightarrow> string"
    \<comment> \<open>\<^verbatim>\<open>Intl.NumberFormat('en-US', {style: 'currency', currency, ...}).format(amount)\<close>\<close>
  numberToString :: "real \<Rightarrow> string"
    \<comment> \<open>the text a template literal gives for a number\<close>
  monthLongName :: "date \<Rightarrow> string"
    \<comment> \<open>\<^verbatim>\<open>new Date(s).toLocaleString('en-US', {month: 'long'})\<close>\<close>
  fullYearText :: "date \<Rightarrow> string"
    \<comment> \<open>\<^verbatim>\<open>new Date(s).getFullYear()\<close> as text\<close>

definition formatCurrency :: "host \<Rightarrow> real \<Rightarrow> string option \<Rightarrow> string" where
  "formatCurrency h amount currency' =
     intlCurrencyFormat h (case currency' of None \<Rightarrow> ''USD'' | Some c \<Rightarrow> c) amount"

definition formatPercentage :: "host \<Rightarrow> real \<Rightarrow> bool option \<Rightarrow> string" where
  "formatPercentage h percentage' showSign =
     (let sign = (if (case showSign of None \<Rightarrow> True | Some b \<Rightarrow> b) \<and> percentage' > 0
                  then ''+'' else '''')
      in sign @ numberToString h percentage' @ ''%'')"

record ServiceCostData =
  name :: string
  cost :: real
  percentage :: real
  previousPeriodChange :: "real option"

record TrendData =
  monthOverMonth :: "real option"
  trend :: trend

record ProcessedCostData =
  period :: period
  totalCost :: real
  currency :: string
  services :: "ServiceCostData list"
  trends :: TrendData
  summary :: string

text \<open>
  \<^verbatim>\<open>services.sort((a, b) => b.cost - a.cost)\<close>: \<^verbatim>\<open>Array.prototype.sort\<close> is a stable
  sort and works in place. Descending by cost is ascending by the negated cost.
\<close>

definition sortByCostDesc :: "ServiceCostData list \<Rightarrow> ServiceCostData list" where
  "sortByCostDesc xs = sort_key (\<lambda>s. - cost s) xs"

text \<open>
  \<open>getTopServices\<close> returns the slice and, as second component, the caller's array as
  the call leaves it (\<^verbatim>\<open>sort\<close> has reordered it; \<^verbatim>\<open>slice\<close> copies).
\<close>

definition getTopServices ::
  "ServiceCostData list \<Rightarrow> nat option \<Rightarrow> ServiceCostData list \<times> ServiceCostData list" where
  "getTopServices services' topN =
     (let sorted' = sortByCostDesc services'
      in (take (case topN of None \<Rightarrow> 10 | Some n \<Rightarrow> n) sorted', sorted'))"

fun join :: "string \<Rightarrow> string list \<Rightarrow> string" where
  "join sep [] = []"
| "join sep [x] = x"
| "join sep (x # y # ys) = x @ sep @ join sep (y # ys)"

definition periodLabel :: "host \<Rightarrow> ProcessedCostData \<Rightarrow> string" where
  "periodLabel h data =
     monthLongName h (pstart (period data)) @ '' '' @ fullYearText h (pstart (period data))"

text \<open>
  \<open>generateCostSummaryTop h n\<close> is \<^verbatim>\<open>generateCostSummary\<close> with the literal count of top
  services being \<open>n\<close>: the file \<^verbatim>\<open>utils/cost-calculations.ts\<close> has 3, the second copy of
  the function in the repository has 5. The second component is \<^verbatim>\<open>data.services\<close> after
  the call. The test \<^verbatim>\<open>!data.trends.monthOverMonth\<close> holds for a missing value and for
  the number 0.
\<close>

definition generateCostSummaryTop ::
  "host \<Rightarrow> nat \<Rightarrow> ProcessedCostData \<Rightarrow> string \<times> ServiceCostData list" where
  "generateCostSummaryTop h n data =
     (let formattedCost = formatCurrency h (totalCost data) (Some (currency data));
          period' = periodLabel h data;
          short = (''Total cost for '' @ period' @ '' was '' @ formattedCost @ ''.'',
                   services data)
      in case monthOverMonth (trends data) of
           None \<Rightarrow> short
         | Some percentageChange \<Rightarrow>
             if percentageChange = 0 then short
             else
               (let trendText = (if trend (trends data) = increasing then ''increase''
                                 else if trend (trends data) = decreasing then ''decrease''
                                 else ''stable'');
                    (topServices, services') = getTopServices (services data) (Some n);
                    topServiceText = join '', ''
                      (map (\<lambda>s. name s @ '' ('' @ formatCurrency h (cost s) None @ '', '' @
                                 formatPercentage h (percentage s) (Some False) @ '')'')
                           topServices)
                in (''Total cost for '' @ period' @ '' was '' @ formattedCost @
                    '', showing '' @ formatPercentage h percentageChange None @ '' '' @
                    trendText @ '' compared to previous period. Top costs: '' @
                    topServiceText, services')))"

definition generateCostSummary ::
  "host \<Rightarrow> ProcessedCostData \<Rightarrow> string \<times> ServiceCostData list" where
  "generateCostSummary h data = generateCostSummaryTop h 3 data"

definition generateCostSummary5 ::
  "host \<Rightarrow> ProcessedCostData \<Rightarrow> string \<times> ServiceCostData list" where
  "generateCostSummary5 h data = generateCostSummaryTop h 5 data"

fun suggestionLoop ::
  "host \<Rightarrow> real \<Rightarrow> ServiceCostData list \<Rightarrow> string list \<Rightarrow> string list" where
  "suggestionLoop h threshold [] suggestions' = suggestions'"
| "suggestionLoop h threshold (service # rest) suggestions' =
     (if cost service < threshold then suggestionLoop h threshold rest suggestions'
      else if name service = ''Amazon Elastic Compute Cloud - Compute'' then
        suggestionLoop h threshold rest (suggestions' @
          [''EC2 instances ('' @ formatCurrency h (cost service) None @
           ''): Consider Reserved Instances for 20-40% cost savings.''])
      else if name service = ''Amazon Simple Storage Service'' then
        suggestionLoop h threshold rest (suggestions' @
          [''S3 storage ('' @ formatCurrency h (cost service) None @
           ''): Consider Intelligent-Tiering and lifecycle policies.''])
      else if name service = ''Amazon Relational Database Service'' then
        suggestionLoop h threshold rest (suggestions' @
          [''RDS ('' @ formatCurrency h (cost service) None @
           ''): Consider right-sizing and Reserved Instances.''])
      else if cost service > 500 then
        suggestionLoop h threshold rest (suggestions' @
          [name service @ '' ('' @ formatCurrency h (cost service) None @
           ''): Review usage patterns and optimization opportunities.''])
      else suggestionLoop h threshold rest suggestions')"

definition generateCostOptimizationSuggestions ::
  "host \<Rightarrow> ServiceCostData list \<Rightarrow> real option \<Rightarrow> string list \<times> ServiceCostData list" where
  "generateCostOptimizationSuggestions h services' threshold =
     (let (topServices, services'') = getTopServices services' (Some 5)
      in (suggestionLoop h (case threshold of None \<Rightarrow> 100 | Some t \<Rightarrow> t) topServices [],
          services''))"

section \<open>utils/error-handlers.ts\<close>

datatype AWSErrorType =
  AUTHENTICATION | AUTHORIZATION | THROTTLING | INVALID_PARAMETER
  | SERVICE_UNAVAILABLE | QUOTA_EXCEEDED | UNKNOWN

fun errorTypeToString :: "AWSErrorType \<Rightarrow> string" where
  "errorTypeToString AUTHENTICATION = ''AUTHENTICATION''"
| "errorTypeToString AUTHORIZATION = ''AUTHORIZATION''"
| "errorTypeToString THROTTLING = ''THROTTLING''"
| "errorTypeToString INVALID_PARAMETER = ''INVALID_PARAMETER''"
| "errorTypeToString SERVICE_UNAVAILABLE = ''SERVICE_UNAVAILABLE''"
| "errorTypeToString QUOTA_EXCEEDED = ''QUOTA_EXCEEDED''"
| "errorTypeToString UNKNOWN = ''UNKNOWN''"

record ErrorResponse =
  success :: bool
  error :: string
  errorType :: string
  suggestions :: "string list"
  retryable :: bool

definition createErrorResponse ::
  "AWSErrorType \<Rightarrow> string \<Rightarrow> string list option \<Rightarrow> bool option \<Rightarrow> ErrorResponse" where
  "createErrorResponse ty message sugg retry =
     \<lparr> success = False,
       error = message,
       errorType = errorTypeToString ty,
       suggestions = (case sugg of None \<Rightarrow> [] | Some xs \<Rightarrow> xs),
       retryable = (case retry of None \<Rightarrow> False | Some b \<Rightarrow> b) \<rparr>"

text \<open>
  The argument of \<^verbatim>\<open>handleAWSError\<close> has type \<^verbatim>\<open>unknown\<close>. What the function looks at:
  whether the value is falsy, whether it is an \<^verbatim>\<open>Error\<close> (then its name and message),
  and otherwise the text \<^verbatim>\<open>String(error)\<close>.
\<close>

datatype thrown =
  Falsy
  | ErrorObject string string
  | OtherValue string

definition errorToString :: "string \<Rightarrow> string \<Rightarrow> string" where
  \<comment> \<open>\<^verbatim>\<open>Error.prototype.toString\<close> on name and message\<close>
  "errorToString nm msg =
     (if nm = [] then msg else if msg = [] then nm else nm @ '': '' @ msg)"

definition messageOf :: "thrown \<Rightarrow> string" where
  \<comment> \<open>\<^verbatim>\<open>err.message || err.toString()\<close> for the \<^verbatim>\<open>err\<close> built from a truthy value\<close>
  "messageOf e =
     (case e of
        ErrorObject nm msg \<Rightarrow> (if msg \<noteq> [] then msg else errorToString nm msg)
      | OtherValue s \<Rightarrow> (if s \<noteq> [] then s else errorToString ''Error'' s)
      | Falsy \<Rightarrow> [])"

definition str_includes :: "string \<Rightarrow> string \<Rightarrow> bool" where
  \<comment> \<open>\<^verbatim>\<open>s.includes(t)\<close>: \<open>t\<close> occurs in \<open>s\<close> as a contiguous run\<close>
  "str_includes s t = sublist t s"

definition handleAWSError :: "thrown \<Rightarrow> ErrorResponse" where
  "handleAWSError e =
     (if e = Falsy then createErrorResponse UNKNOWN ''Unknown error occurred'' None None
      else
        (let errorMessage = messageOf e in
         if str_includes errorMessage ''The security token included in the request is invalid'' \<or>
            str_includes errorMessage ''SignatureDoesNotMatch'' \<or>
            str_includes errorMessage ''InvalidAccessKeyId''
         then createErrorResponse AUTHENTICATION
                ''AWS credentials are invalid. Please check your access key and secret key.''
                (Some [''1. Check AWS_ACCESS_KEY_ID and AWS_SECRET_ACCESS_KEY in .env file'',
                       ''2. Verify access key is valid in AWS Console'',
                       ''3. Ensure IAM user is in active status''])
                (Some False)
         else if str_includes errorMessage ''UnauthorizedOperation'' \<or>
                 str_includes errorMessage ''AccessDenied'' \<or>
                 str_includes errorMessage ''Forbidden''
         then createErrorResponse AUTHORIZATION
                ''Insufficient access permissions to AWS Cost Explorer.''
                (Some [''1. Grant Cost Explorer permissions to IAM user'',
                       ''2. Required permissions: ce:GetCostAndUsage, ce:GetDimensionValues'',
                       ''3. Ask administrator to review IAM policies''])
                (Some False)
         else if str_includes errorMessage ''Throttling'' \<or>
                 str_includes errorMessage ''RequestLimitExceeded'' \<or>
                 str_includes errorMessage ''TooManyRequests''
         then createErrorResponse THROTTLING
                ''AWS API rate limit reached. Please wait a moment and try again.''
                (Some [''1. Wait 5-10 minutes before retrying'',
                       ''2. Avoid consecutive rapid executions'',
                       ''3. Contact AWS support for limit increase if needed''])
                (Some True)
         else if str_includes errorMessage ''ValidationException'' \<or>
                 str_includes errorMessage ''InvalidParameter'' \<or>
                 str_includes errorMessage ''invalid date''
         then createErrorResponse INVALID_PARAMETER
                ''Request parameters are invalid. Please check date range and specification.''
                (Some [''1. Ensure date format is YYYY-MM-DD'',
                       ''2. Verify start date is before end date'',
                       ''3. Specify period within the last 13 months''])
                (Some False)
         else if str_includes errorMessage ''You haven't enabled historical data'' \<or>
                 str_includes errorMessage ''historical data beyond''
         then createErrorResponse INVALID_PARAMETER
                (''Cost Explorer historical data is not enabled or data for the specified '' @
                 ''period does not exist.'')
                (Some [''1. Enable data in AWS Billing and Cost Management (takes 24 hours)'',
                       ''2. Try retrieving data for a shorter period'',
                       ''3. Manually check data existence in Cost Explorer''])
                (Some False)
         else if str_includes errorMessage ''ServiceUnavailable'' \<or>
                 str_includes errorMessage ''InternalError'' \<or>
                 str_includes errorMessage ''500''
         then createErrorResponse SERVICE_UNAVAILABLE
                ''AWS Cost Explorer service is temporarily unavailable.''
                (Some [''1. Retry after waiting a moment'',
                       ''2. Check AWS Service Health Dashboard'',
                       ''3. Contact AWS support if the problem persists''])
                (Some True)
         else if str_includes errorMessage ''LimitExceeded'' \<or>
                 str_includes errorMessage ''exceeded your current quota''
         then createErrorResponse QUOTA_EXCEEDED
                ''AWS account usage limit exceeded.''
                (Some [''1. Check Usage Limits in billing settings'',
                       ''2. Increase limits as needed'',
                       ''3. Contact AWS support for limit increase''])
                (Some False)
         else createErrorResponse UNKNOWN
                (''Unexpected error occurred: '' @ errorMessage)
                (Some [''1. Retry after waiting a moment'',
                       ''2. Check environment variable settings'',
                       ''3. Contact administrator if the problem persists''])
                (Some True)))"

section \<open>utils/date-helpers.ts\<close>

text \<open>
  The calendar of the host. \<open>newDate year monthIndex day\<close> is the local calendar day of
  \<^verbatim>\<open>new Date(year, monthIndex, day)\<close> for the two days the program uses: day 1, and
  day 0, which is the last day of the month before. The month index counts from 0
  and may lie outside 0..11, the constructor carries it into the year; a year from 0
  to 99 means 1900 + year.
\<close>

definition isLeapYear :: "int \<Rightarrow> bool" where
  "isLeapYear y = (y mod 4 = 0 \<and> (y mod 100 \<noteq> 0 \<or> y mod 400 = 0))"

definition daysInMonth :: "int \<Rightarrow> int \<Rightarrow> int" where
  "daysInMonth y m =
     (if m = 2 then (if isLeapYear y then 29 else 28)
      else if m = 4 \<or> m = 6 \<or> m = 9 \<or> m = 11 then 30 else 31)"

definition dateYear :: "int \<Rightarrow> int" where
  "dateYear y = (if 0 \<le> y \<and> y \<le> 99 then 1900 + y else y)"

definition newDate :: "int \<Rightarrow> int \<Rightarrow> int \<Rightarrow> date" where
  "newDate year monthIndex day =
     (let mi = (if day = 0 then monthIndex - 1 else monthIndex);
          y = dateYear year + mi div 12;
          m = mi mod 12 + 1
      in (y, m, if day = 0 then daysInMonth y m else day))"

definition getDate :: "date \<Rightarrow> int" where
  "getDate d = snd (snd d)"

definition prevDay :: "date \<Rightarrow> date" where
  "prevDay dt =
     (case dt of (y, m, d) \<Rightarrow>
        if d > 1 then (y, m, d - 1)
        else if m > 1 then (y, m - 1, daysInMonth y (m - 1))
        else (y - 1, 12, 31))"

text \<open>
  What the program reads from the clock and the time zone of the process:
  \<^verbatim>\<open>now.getFullYear()\<close>, \<^verbatim>\<open>now.getMonth()\<close> (0 to 11), and whether local time is ahead of
  UTC. \<^verbatim>\<open>toISOString\<close> prints the UTC day; for a \<^verbatim>\<open>Date\<close> built at local midnight that
  is the day before when local time is ahead of UTC, and the same day otherwise.
\<close>

record clock =
  nowYear :: int
  nowMonth :: int
  utcAhead :: bool

definition toISODate :: "clock \<Rightarrow> date \<Rightarrow> date" where
  \<comment> \<open>\<^verbatim>\<open>d.toISOString().split('T')[0]\<close> for \<open>d\<close> at local midnight\<close>
  "toISODate clk d = (if utcAhead clk then prevDay d else d)"

definition getMonthRange :: "clock \<Rightarrow> int \<Rightarrow> period" where
  "getMonthRange clk monthOffset =
     (let year = nowYear clk;
          month = nowMonth clk + monthOffset;
          startDate = newDate year month 1;
          endDate = newDate year (month + 1) 0
      in \<lparr> pstart = toISODate clk startDate, pend = toISODate clk endDate \<rparr>)"

definition date_le :: "date \<Rightarrow> date \<Rightarrow> bool" where
  \<comment> \<open>the order of calendar days\<close>
  "date_le a b =
     (case a of (y1, m1, d1) \<Rightarrow> case b of (y2, m2, d2) \<Rightarrow>
        y1 < y2 \<or> (y1 = y2 \<and> (m1 < m2 \<or> (m1 = m2 \<and> d1 \<le> d2))))"

section \<open>tools/aws-cost-fetcher.ts: the period of a query\<close>

text \<open>
  The two regular expressions, on the characters of the query. \<^verbatim>\<open>\b\<close> holds between
  two positions when exactly one of the neighbouring characters is a word character
  (letter, digit or underscore); outside the string there is no word character.
\<close>

definition isWordChar :: "char \<Rightarrow> bool" where
  "isWordChar c =
     (c \<in> set ''ABCDEFGHIJKLMNOPQRSTUVWXYZabcdefghijklmnopqrstuvwxyz0123456789_'')"

definition isDigit :: "char \<Rightarrow> bool" where
  "isDigit c = (c \<in> set ''0123456789'')"

definition wordBoundary :: "char option \<Rightarrow> char option \<Rightarrow> bool" where
  "wordBoundary prev next =
     ((case prev of None \<Rightarrow> False | Some c \<Rightarrow> isWordChar c) \<noteq>
      (case next of None \<Rightarrow> False | Some c \<Rightarrow> isWordChar c))"

definition headOpt :: "'a list \<Rightarrow> 'a option" where
  "headOpt xs = (case xs of [] \<Rightarrow> None | x # _ \<Rightarrow> Some x)"

text \<open>\<^verbatim>\<open>/\b\d{4}\b/\<close> matching at the front of \<open>s\<close>, \<open>prev\<close> being the character in front of it.\<close>

fun yearAt :: "char option \<Rightarrow> string \<Rightarrow> bool" where
  "yearAt prev (a # b # c # d # rest) =
     (wordBoundary prev (Some a) \<and> isDigit a \<and> isDigit b \<and> isDigit c \<and> isDigit d \<and>
      wordBoundary (Some d) (headOpt rest))"
| "yearAt prev s = False"

fun hasYearFrom :: "char option \<Rightarrow> string \<Rightarrow> bool" where
  "hasYearFrom prev [] = False"
| "hasYearFrom prev (c # cs) = (yearAt prev (c # cs) \<or> hasYearFrom (Some c) cs)"

definition hasYear :: "string \<Rightarrow> bool" where
  "hasYear query = hasYearFrom None query"

definition toLowerChar :: "char \<Rightarrow> char" where
  "toLowerChar c =
     (case map_of (zip ''ABCDEFGHIJKLMNOPQRSTUVWXYZ'' ''abcdefghijklmnopqrstuvwxyz'') c of
        None \<Rightarrow> c | Some l \<Rightarrow> l)"

definition toLowerCase :: "string \<Rightarrow> string" where
  "toLowerCase s = map toLowerChar s"

definition monthNames :: "string list" where
  "monthNames =
     [''January'', ''February'', ''March'', ''April'', ''May'', ''June'', ''July'',
      ''August'', ''September'', ''October'', ''November'', ''December'']"

text \<open>One alternative of \<^verbatim>\<open>/\b(January|...|December)\b/i\<close> at the front of \<open>s\<close>.\<close>

definition wordAt :: "char option \<Rightarrow> string \<Rightarrow> string \<Rightarrow> bool" where
  "wordAt prev w s =
     (wordBoundary prev (headOpt s) \<and>
      length w \<le> length s \<and>
      toLowerCase (take (length w) s) = toLowerCase w \<and>
      wordBoundary (headOpt (rev (take (length w) s))) (headOpt (drop (length w) s)))"

definition monthAt :: "char option \<Rightarrow> string \<Rightarrow> string option" where
  "monthAt prev s =
     (case List.find (\<lambda>w. wordAt prev w s) monthNames of
        None \<Rightarrow> None
      | Some w \<Rightarrow> Some (take (length w) s))"

fun monthOnlyFrom :: "char option \<Rightarrow> string \<Rightarrow> string option" where
  "monthOnlyFrom prev [] = None"
| "monthOnlyFrom prev (c # cs) =
     (case monthAt prev (c # cs) of
        Some w \<Rightarrow> Some w
      | None \<Rightarrow> monthOnlyFrom (Some c) cs)"

definition monthOnlyMatch :: "string \<Rightarrow> string option" where
  \<comment> \<open>the first group of the leftmost match, as the query writes it\<close>
  "monthOnlyMatch query = monthOnlyFrom None query"

definition monthIndexOf :: "string \<Rightarrow> int" where
  \<comment> \<open>\<^verbatim>\<open>new Date(`${monthName} 1, ${currentYear}`).getMonth() + 1\<close>; 0 where the host
      gives \<^verbatim>\<open>NaN\<close>\<close>
  "monthIndexOf monthName =
     (case filter (\<lambda>(i, w). toLowerCase w = toLowerCase monthName) (zip [1..12] monthNames) of
        [] \<Rightarrow> 0
      | (i, w) # _ \<Rightarrow> i)"

text \<open>
  The external parser: \<open>chrono query\<close> stands for
  \<^verbatim>\<open>chrono.parse(query, now, { forwardDate: false })\<close>. Of each result the program reads
  \<^verbatim>\<open>start.get('year')\<close>, \<^verbatim>\<open>start.get('month')\<close>, \<^verbatim>\<open>start.isCertain('day')\<close> and
  \<^verbatim>\<open>start.date().toISOString().split('T')[0]\<close>.
\<close>

record parsedResult =
  startYear :: "int option"
  startMonth :: "int option"
  startDayCertain :: bool
  startIsoDate :: date

definition truthyInt :: "int option \<Rightarrow> bool" where
  "truthyInt v = (case v of None \<Rightarrow> False | Some x \<Rightarrow> x \<noteq> 0)"

definition fallbackPeriod :: "clock \<Rightarrow> string \<Rightarrow> period" where
  "fallbackPeriod clk query =
     (let lowerQuery = toLowerCase query
      in if str_includes lowerQuery ''this month'' \<or> str_includes lowerQuery ''current month''
         then getMonthRange clk 0
         else if str_includes lowerQuery ''last month'' \<or>
                 str_includes lowerQuery ''previous month''
         then getMonthRange clk (- 1)
         else getMonthRange clk 0)"

definition wholeMonth :: "int \<Rightarrow> int \<Rightarrow> period" where
  \<comment> \<open>the strings \<^verbatim>\<open>`${y}-${mm}-01`\<close> and \<^verbatim>\<open>`${y}-${mm}-${endDay}`\<close>\<close>
  "wholeMonth y m =
     (let endDay = getDate (newDate y m 0)
      in \<lparr> pstart = (y, m, 1), pend = (y, m, endDay) \<rparr>)"

definition chronoPeriod :: "clock \<Rightarrow> (string \<Rightarrow> parsedResult list) \<Rightarrow> string \<Rightarrow> period" where
  "chronoPeriod clk chrono query =
     (case chrono query of
        [] \<Rightarrow> fallbackPeriod clk query
      | res # _ \<Rightarrow>
          if truthyInt (startYear res) \<and> truthyInt (startMonth res) \<and>
             \<not> startDayCertain res
          then wholeMonth (the (startYear res)) (the (startMonth res))
          else if startDayCertain res
          then \<lparr> pstart = startIsoDate res, pend = startIsoDate res \<rparr>
          else fallbackPeriod clk query)"

definition extractPeriodFromQuery ::
  "clock \<Rightarrow> (string \<Rightarrow> parsedResult list) \<Rightarrow> string \<Rightarrow> period" where
  "extractPeriodFromQuery clk chrono query =
     (let currentYear = nowYear clk;
          hasYear' = hasYear query
      in case (if \<not> hasYear' then monthOnlyMatch query else None) of
           Some monthName \<Rightarrow> wholeMonth currentYear (monthIndexOf monthName)
         | None \<Rightarrow> chronoPeriod clk chrono query)"

section \<open>tools/aws-cost-fetcher.ts: fetching the two periods\<close>

text \<open>
  In \<^verbatim>\<open>fetchPreviousPeriodData\<close> the dates are \<^verbatim>\<open>Date\<close> values, that is milliseconds since
  the epoch. A \<^verbatim>\<open>YYYY-MM-DD\<close> string is represented by its day number, the number of
  days from 1970-01-01 to the day it names: \<^verbatim>\<open>new Date(s)\<close> is midnight UTC of that day,
  and \<^verbatim>\<open>toISOString().split('T')[0]\<close> names the UTC day a timestamp falls in.
  \<^verbatim>\<open>d.setDate(d.getDate() + k)\<close> moves a timestamp by \<open>k\<close> local calendar days; the
  offset of local time from UTC is taken to be constant, so that is \<open>k\<close> times 24 hours.
\<close>

definition msPerDay :: int where
  "msPerDay = 1000 * 60 * 60 * 24"

definition newDateISO :: "int \<Rightarrow> int" where
  "newDateISO dayNumber = dayNumber * msPerDay"

definition toISODay :: "int \<Rightarrow> int" where
  "toISODay t = t div msPerDay"

definition setDateBy :: "int \<Rightarrow> int \<Rightarrow> int" where
  "setDateBy t k = t + k * msPerDay"

definition Math_ceil :: "real \<Rightarrow> int" where
  "Math_ceil x = \<lceil>x\<rceil>"

text \<open>
  \<open>send\<close> is the call of the billing API for a period; \<^verbatim>\<open>fetchCostData\<close> returns its
  response as it is (the total it computes when the API total is the string
  \<^verbatim>\<open>'0'\<close> is only logged).
\<close>

definition fetchCostData :: "(int \<Rightarrow> int \<Rightarrow> 'r) \<Rightarrow> int \<Rightarrow> int \<Rightarrow> 'r" where
  "fetchCostData send startDate endDate = send startDate endDate"

definition fetchPreviousPeriodData :: "(int \<Rightarrow> int \<Rightarrow> 'r) \<Rightarrow> int \<Rightarrow> int \<Rightarrow> 'r" where
  "fetchPreviousPeriodData send startDate endDate =
     (let start = newDateISO startDate;
          end' = newDateISO endDate;
          daysDiff = Math_ceil (real_of_int (end' - start) / real_of_int msPerDay);
          prevEnd = setDateBy start (- 1);
          prevStart = setDateBy prevEnd (- daysDiff + 1);
          prevStartStr = toISODay prevStart;
          prevEndStr = toISODay prevEnd
      in fetchCostData send prevStartStr prevEndStr)"

definition daysInclusive :: "int \<Rightarrow> int \<Rightarrow> int" where
  \<comment> \<open>the number of calendar days of a period, both ends counted\<close>
  "daysInclusive startDate endDate = endDate - startDate + 1"

section \<open>tools/aws-cost-fetcher.ts: processing the two reports\<close>

text \<open>
  A raw report. \<open>Amount\<close> is the double \<^verbatim>\<open>parseFloat\<close> reads from the amount string;
  \<open>None\<close> is an amount that is missing (any link of the \<^verbatim>\<open>?.\<close> chain) or the empty
  string, for which the program reads \<^verbatim>\<open>'0'\<close>. \<open>Keys = []\<close> is a group with no key.
\<close>

record Group =
  Keys :: "string list"
  Amount :: "real option"

record ResultByTime =
  TotalAmount :: "real option"
  TotalUnit :: "string option"
  Groups :: "Group list option"

type_synonym CostExplorerResponse = "ResultByTime list"

definition parseAmount :: "real option \<Rightarrow> real" where
  \<comment> \<open>\<^verbatim>\<open>parseFloat(x || '0')\<close>\<close>
  "parseAmount a = (case a of None \<Rightarrow> 0 | Some v \<Rightarrow> v)"

definition firstKey :: "Group \<Rightarrow> string option" where
  \<comment> \<open>\<^verbatim>\<open>g.Keys?.[0]\<close>\<close>
  "firstKey g = headOpt (Keys g)"

fun sumGroups :: "real \<Rightarrow> Group list \<Rightarrow> real" where
  "sumGroups acc [] = acc"
| "sumGroups acc (g # gs) = sumGroups (fadd acc (parseAmount (Amount g))) gs"

definition previousTotal :: "ResultByTime option \<Rightarrow> real" where
  "previousTotal previousResults =
     (let previousTotalCost = parseAmount (Option.bind previousResults TotalAmount)
      in case Option.bind previousResults Groups of
           None \<Rightarrow> previousTotalCost
         | Some gs \<Rightarrow> if previousTotalCost = 0 then sumGroups 0 gs else previousTotalCost)"

definition serviceOf :: "ResultByTime option \<Rightarrow> Group \<Rightarrow> ServiceCostData" where
  \<comment> \<open>the body of the loop over the groups of the current report\<close>
  "serviceOf previousResults g =
     (let serviceName = (case firstKey g of
                           None \<Rightarrow> ''Unknown''
                         | Some k \<Rightarrow> if k = [] then ''Unknown'' else k);
          serviceCost = parseAmount (Amount g);
          previousServiceGroup =
            (case Option.bind previousResults Groups of
               None \<Rightarrow> None
             | Some gs \<Rightarrow> List.find (\<lambda>p. firstKey p = Some serviceName) gs);
          previousServiceCost = parseAmount (Option.bind previousServiceGroup Amount);
          previousPeriodChange' =
            (if previousServiceCost > 0
             then calculatePercentageChange serviceCost previousServiceCost
             else (if serviceCost > 0 then 100 else 0))
      in \<lparr> name = serviceName, cost = serviceCost, percentage = 0,
           previousPeriodChange = Some previousPeriodChange' \<rparr>)"

fun serviceLoop ::
  "ResultByTime option \<Rightarrow> Group list \<Rightarrow> ServiceCostData list \<times> real \<Rightarrow>
   ServiceCostData list \<times> real" where
  "serviceLoop previousResults [] st = st"
| "serviceLoop previousResults (g # gs) (services', calculatedTotalCost) =
     serviceLoop previousResults gs
       (services' @ [serviceOf previousResults g],
        fadd calculatedTotalCost (parseAmount (Amount g)))"

definition processAndAnalyzeCostData ::
  "host \<Rightarrow> CostExplorerResponse \<Rightarrow> CostExplorerResponse \<Rightarrow> period \<Rightarrow> ProcessedCostData" where
  "processAndAnalyzeCostData h currentData previousData period' =
     (let currentResults = headOpt currentData;
          apiTotalCost = parseAmount (Option.bind currentResults TotalAmount);
          currency' = (case Option.bind currentResults TotalUnit of
                         None \<Rightarrow> ''USD''
                       | Some u \<Rightarrow> if u = [] then ''USD'' else u);
          previousResults = headOpt previousData;
          previousTotalCost = previousTotal previousResults;
          (services0, calculatedTotalCost) =
            (case Option.bind currentResults Groups of
               None \<Rightarrow> ([], 0)
             | Some gs \<Rightarrow> serviceLoop previousResults gs ([], 0));
          totalCost' = (if apiTotalCost > 0 then apiTotalCost else calculatedTotalCost);
          services1 = map (\<lambda>service. service\<lparr>percentage :=
                        (if totalCost' > 0 then fmul (fdiv (cost service) totalCost') 100
                         else 0)\<rparr>)
                        services0;
          monthOverMonth' = (if previousTotalCost > 0
                             then calculatePercentageChange totalCost' previousTotalCost
                             else (if totalCost' > 0 then 100 else 0));
          trends' = \<lparr> monthOverMonth = Some monthOverMonth',
                      trend = determineTrend monthOverMonth' None \<rparr>;
          tempData = \<lparr> period = period', totalCost = totalCost', currency = currency',
                       services = sortByCostDesc services1, trends = trends',
                       summary = [] \<rparr>;
          (summary', services2) = generateCostSummary h tempData
      in tempData\<lparr> services := services2, summary := summary' \<rparr>)"

section \<open>The classification table of the specification\<close>

text \<open>
  The specification describes the classification of a fetch error as a table from
  substrings of the message to classes, read in order, the first match winning, and
  \<open>UNKNOWN\<close> when nothing matches; and it names the classes whose responses are
  retryable. These definitions follow the specification, the theorems below compare
  \<open>handleAWSError\<close> with them.
\<close>

definition errorPatterns :: "(string \<times> AWSErrorType) list" where
  "errorPatterns =
     [(''The security token included in the request is invalid'', AUTHENTICATION),
      (''SignatureDoesNotMatch'', AUTHENTICATION),
      (''InvalidAccessKeyId'', AUTHENTICATION),
      (''UnauthorizedOperation'', AUTHORIZATION),
      (''AccessDenied'', AUTHORIZATION),
      (''Forbidden'', AUTHORIZATION),
      (''Throttling'', THROTTLING),
      (''RequestLimitExceeded'', THROTTLING),
      (''TooManyRequests'', THROTTLING),
      (''ValidationException'', INVALID_PARAMETER),
      (''InvalidParameter'', INVALID_PARAMETER),
      (''invalid date'', INVALID_PARAMETER),
      (''You haven't enabled historical data'', INVALID_PARAMETER),
      (''historical data beyond'', INVALID_PARAMETER),
      (''ServiceUnavailable'', SERVICE_UNAVAILABLE),
      (''InternalError'', SERVICE_UNAVAILABLE),
      (''500'', SERVICE_UNAVAILABLE),
      (''LimitExceeded'', QUOTA_EXCEEDED),
      (''exceeded your current quota'', QUOTA_EXCEEDED)]"

definition classify :: "string \<Rightarrow> AWSErrorType" where
  "classify message =
     (case List.find (\<lambda>(pat, ty). str_includes message pat) errorPatterns of
        None \<Rightarrow> UNKNOWN
      | Some (pat, ty) \<Rightarrow> ty)"

definition retryableClass :: "AWSErrorType \<Rightarrow> bool" where
  "retryableClass ty = (ty = THROTTLING \<or> ty = SERVICE_UNAVAILABLE \<or> ty = UNKNOWN)"

section \<open>Names for the statements below\<close>

text \<open>\<open>descendingByCost\<close>: no element has a smaller cost than a later one.\<close>

definition descendingByCost :: "ServiceCostData list \<Rightarrow> bool" where
  "descendingByCost xs = sorted_wrt (\<lambda>a b. cost b \<le> cost a) xs"

text \<open>
  Of a report: its groups, its declared total and the sum of the amounts of its groups,
  each read the way \<open>processAndAnalyzeCostData\<close> reads it; the sum is the one the loops
  of the program accumulate, in doubles.
\<close>

definition groupsOf :: "ResultByTime option \<Rightarrow> Group list" where
  "groupsOf r = (case Option.bind r Groups of None \<Rightarrow> [] | Some gs \<Rightarrow> gs)"

definition declaredTotal :: "ResultByTime option \<Rightarrow> real" where
  "declaredTotal r = parseAmount (Option.bind r TotalAmount)"

definition groupSum :: "ResultByTime option \<Rightarrow> real" where
  "groupSum r = sumGroups 0 (groupsOf r)"

text \<open>
  Intermediate values of \<open>processAndAnalyzeCostData\<close>, named after its variables: the
  final total, the month-over-month change, the services with their shares, and the
  temporary data passed to \<open>generateCostSummary\<close>.
\<close>

definition finalTotal :: "CostExplorerResponse \<Rightarrow> real" where
  "finalTotal cur =
     (if 0 < declaredTotal (headOpt cur) then declaredTotal (headOpt cur)
      else groupSum (headOpt cur))"

definition momOf :: "CostExplorerResponse \<Rightarrow> CostExplorerResponse \<Rightarrow> real" where
  "momOf cur prev =
     (if previousTotal (headOpt prev) > 0
      then calculatePercentageChange (finalTotal cur) (previousTotal (headOpt prev))
      else (if finalTotal cur > 0 then 100 else 0))"

definition sharedServices ::
  "CostExplorerResponse \<Rightarrow> CostExplorerResponse \<Rightarrow> ServiceCostData list" where
  "sharedServices cur prev =
     map (\<lambda>s. s\<lparr>percentage :=
                 (if finalTotal cur > 0 then fmul (fdiv (cost s) (finalTotal cur)) 100 else 0)\<rparr>)
         (map (serviceOf (headOpt prev)) (groupsOf (headOpt cur)))"

definition tempDataOf ::
  "CostExplorerResponse \<Rightarrow> CostExplorerResponse \<Rightarrow> period \<Rightarrow> ProcessedCostData" where
  "tempDataOf cur prev per =
     \<lparr> period = per, totalCost = finalTotal cur,
       currency = (case Option.bind (headOpt cur) TotalUnit of None \<Rightarrow> ''USD''
                   | Some u \<Rightarrow> if u = [] then ''USD'' else u),
       services = sortByCostDesc (sharedServices cur prev),
       trends = \<lparr> monthOverMonth = Some (momOf cur prev),
                  trend = determineTrend (momOf cur prev) None \<rparr>,
       summary = [] \<rparr>"

text \<open>
  Concrete arguments for the closed statements: a host whose formatters return short
  fixed texts (no statement depends on them), a period, and a report with a declared
  total and groups given as pairs of key and amount, each amount being the double
  nearest to the given decimal, as \<^verbatim>\<open>parseFloat\<close> reads it.
\<close>

definition sampleHost :: host where
  "sampleHost = \<lparr> intlCurrencyFormat = (\<lambda>c a. c), numberToString = (\<lambda>x. ''n''),
                   monthLongName = (\<lambda>d. ''M''), fullYearText = (\<lambda>d. ''Y'') \<rparr>"

definition samplePeriod :: period where
  "samplePeriod = \<lparr> pstart = (2025, 5, 1), pend = (2025, 5, 31) \<rparr>"

definition reportOf :: "real \<Rightarrow> (string \<times> real) list \<Rightarrow> CostExplorerResponse" where
  "reportOf declared gs =
     [\<lparr> TotalAmount = Some (fl declared), TotalUnit = Some ''USD'',
        Groups = Some (map (\<lambda>(k, a). \<lparr> Keys = [k], Amount = Some (fl a) \<rparr>) gs) \<rparr>]"




text \<open>
  Bounds on the rounding of doubles: \<open>unitRoundoff\<close> is half the distance from 1 to the
  next double, the largest relative error of one rounding; \<open>halfMinSubnormal\<close> is half
  the smallest positive double, the largest absolute error of a rounding in the
  subnormal range. \<open>roundingBound ratio n\<close> bounds the rounding error of the shares of
  \<open>n\<close> amounts whose absolute values add up to \<open>ratio\<close> times the total: each share is
  rounded twice, after the division and after the multiplication by 100.
\<close>

definition unitRoundoff :: real where
  "unitRoundoff = 1 / 2 ^ 53"

definition halfMinSubnormal :: real where
  "halfMinSubnormal = 1 / 2 ^ 1075"


section \<open>Percentage change and trend\<close>

text \<open>
  Rounding to the nearest double keeps the sign, and moves a number by at most half
  the spacing of the doubles around it: by at most \<open>\<bar>x\<bar> / 2 ^ 53\<close>, or by half the
  smallest positive double in the subnormal range.
\<close>

lemma binExp_step:
  "0 < n \<Longrightarrow> binExp n a =
     (if a < 1 then binExp (n - 1) (a * 2) - 1
      else if 2 \<le> a then binExp (n - 1) (a / 2) + 1
      else 0)"
  by (cases n) simp_all

lemma pow2_powr: "pow2 e = 2 powr (real_of_int e)"
proof (cases "0 \<le> e")
  case True
  then have "real_of_int e = real (nat e)" by simp
  then have "2 powr (real_of_int e) = (2::real) ^ nat e"
    by (simp only: powr_realpow zero_less_numeral)
  with True show ?thesis by (simp add: pow2_def)
next
  case False
  then have "real_of_int e = - real (nat (- e))" by simp
  then have "2 powr (real_of_int e) = 1 / (2::real) ^ nat (- e)"
    by (simp only: powr_minus powr_realpow zero_less_numeral inverse_eq_divide)
  with False show ?thesis by (simp add: pow2_def)
qed

lemma pow2_pos: "0 < pow2 e"
  by (simp add: pow2_powr)

lemma pow2_add: "pow2 (a + b) = pow2 a * pow2 b"
  by (simp add: pow2_powr powr_add)

lemma pow2_mono: "a \<le> b \<Longrightarrow> pow2 a \<le> pow2 b"
  by (simp add: pow2_powr)

lemma pow2_1: "pow2 1 = 2" and pow2_m1: "pow2 (- 1) = 1 / 2"
  by (simp_all add: pow2_def)

lemma spacing_pos: "0 < spacing x"
  by (simp add: spacing_def pow2_pos)

lemma roundHalfEven_err: "\<bar>real_of_int (roundHalfEven y) - y\<bar> \<le> 1 / 2"
  unfolding roundHalfEven_def Let_def by (auto; linarith)

lemma roundHalfEven_nonneg: "0 \<le> y \<Longrightarrow> 0 \<le> roundHalfEven y"
  unfolding roundHalfEven_def Let_def by (auto; linarith)

lemma roundHalfEven_nonpos: "y \<le> 0 \<Longrightarrow> roundHalfEven y \<le> 0"
  unfolding roundHalfEven_def Let_def
  by (auto; linarith)

lemma fl_nonneg: "0 \<le> x \<Longrightarrow> 0 \<le> fl x"
  using spacing_pos [of x] by (simp add: fl_def roundHalfEven_nonneg)

lemma fl_nonpos: "x \<le> 0 \<Longrightarrow> fl x \<le> 0"
proof -
  assume "x \<le> 0"
  then have "x / spacing x \<le> 0"
    using spacing_pos [of x] by (simp add: divide_nonpos_pos)
  then have "real_of_int (roundHalfEven (x / spacing x)) \<le> 0"
    using roundHalfEven_nonpos by simp
  then show ?thesis
    using spacing_pos [of x] by (simp add: fl_def mult_le_0_iff)
qed

lemma fl_err: "\<bar>fl x - x\<bar> \<le> spacing x / 2"
proof -
  define s where "s = spacing x"
  have s: "0 < s" by (simp add: s_def spacing_pos)
  have "\<bar>real_of_int (roundHalfEven (x / s)) - x / s\<bar> \<le> 1 / 2"
    by (rule roundHalfEven_err)
  then have "\<bar>real_of_int (roundHalfEven (x / s)) - x / s\<bar> * s \<le> 1 / 2 * s"
    using s by (simp add: mult_right_mono)
  moreover have "(real_of_int (roundHalfEven (x / s)) - x / s) * s =
        real_of_int (roundHalfEven (x / s)) * s - x"
    using s by (simp add: left_diff_distrib)
  then have "\<bar>real_of_int (roundHalfEven (x / s)) - x / s\<bar> * s =
        \<bar>real_of_int (roundHalfEven (x / s)) * s - x\<bar>"
    using s abs_mult [of "real_of_int (roundHalfEven (x / s)) - x / s" s] by simp
  ultimately show ?thesis
    by (simp add: fl_def s_def)
qed

lemma binExp_le: "0 < a \<Longrightarrow> pow2 (- int n) \<le> a \<Longrightarrow> pow2 (binExp n a) \<le> a"
proof (induction n arbitrary: a)
  case 0
  then show ?case by (simp add: pow2_def)
next
  case (Suc n)
  show ?case
  proof (cases "a < 1")
    case True
    have "- int (Suc n) = - int n + (- 1)" by simp
    then have "pow2 (- int (Suc n)) = pow2 (- int n) * pow2 (- 1)"
      by (simp only: pow2_add)
    with Suc.prems have "pow2 (- int n) \<le> a * 2"
      by (simp add: pow2_m1)
    with Suc.prems Suc.IH [of "a * 2"] have "pow2 (binExp n (a * 2)) \<le> a * 2"
      by simp
    moreover have "pow2 (binExp n (a * 2) - 1) = pow2 (binExp n (a * 2)) * pow2 (- 1)"
      using pow2_add [of "binExp n (a * 2)" "- 1"] by simp
    ultimately show ?thesis
      using True by (simp add: pow2_m1)
  next
    case False
    show ?thesis
    proof (cases "2 \<le> a")
      case True
      have "pow2 (- int n) \<le> pow2 0" by (rule pow2_mono) simp
      then have "pow2 (- int n) \<le> a / 2"
        using True by (simp add: pow2_def)
      with True Suc.IH [of "a / 2"] have "pow2 (binExp n (a / 2)) \<le> a / 2"
        by simp
      moreover have "pow2 (binExp n (a / 2) + 1) = pow2 (binExp n (a / 2)) * pow2 1"
        by (simp only: pow2_add)
      ultimately show ?thesis
        using True False by (simp add: pow2_1)
    next
      case F2: False
      with False show ?thesis by (simp add: pow2_def)
    qed
  qed
qed

lemma spacing_le: "spacing x \<le> \<bar>x\<bar> / 2 ^ 52 + 1 / 2 ^ 1074"
proof (cases "\<bar>x\<bar> < pow2 (- 1022)")
  case True
  then have "spacing x = 1 / 2 ^ 1074"
    by (simp add: spacing_def) (simp add: pow2_def)
  then show ?thesis by simp
next
  case False
  have "pow2 (- int 1100) \<le> pow2 (- 1022)" by (rule pow2_mono) simp
  with False have a: "pow2 (- int 1100) \<le> \<bar>x\<bar>" by simp
  have p: "0 < \<bar>x\<bar>" using False pow2_pos [of "- 1022"] by linarith
  have "pow2 (binExp 1100 \<bar>x\<bar>) \<le> \<bar>x\<bar>"
    using p a by (rule binExp_le)
  moreover have "pow2 (binExp 1100 \<bar>x\<bar> - 52) = pow2 (binExp 1100 \<bar>x\<bar>) * pow2 (- 52)"
    using pow2_add [of "binExp 1100 \<bar>x\<bar>" "- 52"] by simp
  moreover have "pow2 (- 52) = 1 / 2 ^ 52" by (simp add: pow2_def)
  ultimately have "pow2 (binExp 1100 \<bar>x\<bar> - 52) \<le> \<bar>x\<bar> / 2 ^ 52"
    by (simp add: divide_right_mono)
  with False show ?thesis by (simp add: spacing_def)
qed

lemma fl_rel: "\<bar>fl x - x\<bar> \<le> \<bar>x\<bar> / 2 ^ 53 + 1 / 2 ^ 1075"
  using fl_err [of x] spacing_le [of x] by simp

lemmas fl_eval = fl_def spacing_def pow2_def binExp_step roundHalfEven_def Let_def
  fadd_def fsub_def fmul_def fdiv_def Math_round_def

lemma Math_round_nonneg: "0 \<le> x \<Longrightarrow> 0 \<le> Math_round x"
  unfolding Math_round_def by simp

lemma Math_round_nonpos: "x \<le> 0 \<Longrightarrow> Math_round x \<le> 0"
proof -
  assume "x \<le> 0"
  then have "\<lfloor>x + 1 / 2\<rfloor> \<le> 0" by linarith
  then show ?thesis unfolding Math_round_def by simp
qed

lemma Math_round_near: "\<bar>Math_round x - x\<bar> \<le> 1 / 2"
  unfolding Math_round_def by linarith

lemma percentage_change_nonzero:
  "previous \<noteq> 0 \<Longrightarrow>
   calculatePercentageChange current previous =
     fdiv (Math_round (fmul (fmul (fdiv (fsub current previous) previous) 100) 100)) 100"
  by (simp add: calculatePercentageChange_def Let_def)

lemma two_decimals:
  "\<exists>k::int. \<bar>real_of_int k - x\<bar> \<le> 1 / 2 \<and> fdiv (Math_round x) 100 = fl (real_of_int k / 100)"
proof -
  have "\<bar>real_of_int \<lfloor>x + 1 / 2\<rfloor> - x\<bar> \<le> 1 / 2" by linarith
  moreover have "fdiv (Math_round x) 100 = fl (real_of_int \<lfloor>x + 1 / 2\<rfloor> / 100)"
    by (simp add: fdiv_def Math_round_def)
  ultimately show ?thesis by blast
qed

lemma percentage_change_sign_pos:
  assumes "0 < previous" "previous \<le> current"
  shows "0 \<le> calculatePercentageChange current previous"
proof -
  have "0 \<le> fsub current previous"
    using assms by (simp add: fsub_def fl_nonneg)
  then have "0 \<le> fdiv (fsub current previous) previous"
    using assms by (simp add: fdiv_def fl_nonneg)
  then have "0 \<le> fmul (fdiv (fsub current previous) previous) 100"
    by (simp add: fmul_def fl_nonneg)
  then have "0 \<le> fmul (fmul (fdiv (fsub current previous) previous) 100) 100"
    by (simp add: fmul_def fl_nonneg)
  then have "0 \<le> Math_round (fmul (fmul (fdiv (fsub current previous) previous) 100) 100)"
    by (rule Math_round_nonneg)
  then have "0 \<le> fdiv (Math_round
      (fmul (fmul (fdiv (fsub current previous) previous) 100) 100)) 100"
    by (simp add: fdiv_def fl_nonneg)
  then show ?thesis
    using assms by (simp add: percentage_change_nonzero)
qed

lemma percentage_change_sign_neg:
  assumes "0 < previous" "current \<le> previous"
  shows "calculatePercentageChange current previous \<le> 0"
proof -
  have "fsub current previous \<le> 0"
    using assms by (simp add: fsub_def fl_nonpos)
  then have "fsub current previous / previous \<le> 0"
    using assms by (simp add: divide_nonpos_pos)
  then have "fdiv (fsub current previous) previous \<le> 0"
    by (simp add: fdiv_def fl_nonpos)
  then have "fdiv (fsub current previous) previous * 100 \<le> 0"
    by (simp add: mult_le_0_iff)
  then have a: "fmul (fdiv (fsub current previous) previous) 100 \<le> 0"
    by (simp add: fmul_def fl_nonpos)
  then have "fmul (fdiv (fsub current previous) previous) 100 * 100 \<le> 0"
    by (simp add: mult_le_0_iff)
  then have "fmul (fmul (fdiv (fsub current previous) previous) 100) 100 \<le> 0"
    by (simp add: fmul_def fl_nonpos)
  then have "Math_round (fmul (fmul (fdiv (fsub current previous) previous) 100) 100) \<le> 0"
    by (rule Math_round_nonpos)
  then have "Math_round (fmul (fmul (fdiv (fsub current previous) previous) 100) 100) / 100
      \<le> 0"
    by (simp add: divide_nonpos_pos)
  then have "fdiv (Math_round
      (fmul (fmul (fdiv (fsub current previous) previous) 100) 100)) 100 \<le> 0"
    by (simp add: fdiv_def fl_nonpos)
  then show ?thesis
    using assms by (simp add: percentage_change_nonzero)
qed

text \<open>
  C1, as amended. \<open>calculatePercentageChange current previous\<close> is 100 when \<open>previous\<close> is 0
  and \<open>current\<close> is positive, and 0 when \<open>previous\<close> is 0 and \<open>current\<close> is not positive.
  For a nonzero \<open>previous\<close> it is the change in percent rounded to two decimal places as
  doubles do it: the difference, the quotient and the two products by 100 are each
  rounded to the nearest double, \<open>Math.round\<close> gives a whole number \<open>k\<close> of hundredths
  at most a half away from that product, and the result is the double nearest to
  \<open>k / 100\<close>. For a positive \<open>previous\<close> the result never has the sign opposite to that
  of \<open>current - previous\<close>.
\<close>

theorem calculatePercentageChange_cases:
  "(previous = 0 \<and> 0 < current \<longrightarrow> calculatePercentageChange current previous = 100) \<and>
   (previous = 0 \<and> current \<le> 0 \<longrightarrow> calculatePercentageChange current previous = 0) \<and>
   (previous \<noteq> 0 \<longrightarrow>
      calculatePercentageChange current previous =
        fdiv (Math_round (fmul (fmul (fdiv (fsub current previous) previous) 100) 100)) 100 \<and>
      (\<exists>k::int.
         \<bar>real_of_int k - fmul (fmul (fdiv (fsub current previous) previous) 100) 100\<bar>
           \<le> 1 / 2 \<and>
         calculatePercentageChange current previous = fl (real_of_int k / 100))) \<and>
   (0 < previous \<and> previous \<le> current \<longrightarrow> 0 \<le> calculatePercentageChange current previous) \<and>
   (0 < previous \<and> current \<le> previous \<longrightarrow> calculatePercentageChange current previous \<le> 0)"
proof (intro conjI impI)
  assume "previous = 0 \<and> 0 < current"
  then show "calculatePercentageChange current previous = 100"
    by (simp add: calculatePercentageChange_def)
next
  assume "previous = 0 \<and> current \<le> 0"
  then show "calculatePercentageChange current previous = 0"
    by (simp add: calculatePercentageChange_def)
next
  assume "previous \<noteq> 0"
  then show "calculatePercentageChange current previous =
      fdiv (Math_round (fmul (fmul (fdiv (fsub current previous) previous) 100) 100)) 100"
    by (rule percentage_change_nonzero)
next
  assume nz: "previous \<noteq> 0"
  obtain k :: int where k:
    "\<bar>real_of_int k - fmul (fmul (fdiv (fsub current previous) previous) 100) 100\<bar>
       \<le> 1 / 2"
    "fdiv (Math_round (fmul (fmul (fdiv (fsub current previous) previous) 100) 100)) 100 =
       fl (real_of_int k / 100)"
    using two_decimals by blast
  have "calculatePercentageChange current previous = fl (real_of_int k / 100)"
    using percentage_change_nonzero [OF nz, of current] k(2) by simp
  with k(1) show "\<exists>k::int.
         \<bar>real_of_int k - fmul (fmul (fdiv (fsub current previous) previous) 100) 100\<bar>
           \<le> 1 / 2 \<and>
         calculatePercentageChange current previous = fl (real_of_int k / 100)"
    by blast
next
  assume "0 < previous \<and> previous \<le> current"
  then show "0 \<le> calculatePercentageChange current previous"
    using percentage_change_sign_pos by blast
next
  assume "0 < previous \<and> current \<le> previous"
  then show "calculatePercentageChange current previous \<le> 0"
    using percentage_change_sign_neg by blast
qed

theorem calculatePercentageChange_cases_witness:
  "calculatePercentageChange 200 0 = 100 \<and>
   calculatePercentageChange (- 3) 0 = 0 \<and>
   calculatePercentageChange 150 100 = 50 \<and>
   calculatePercentageChange 183 160 = fl 14.37 \<and>
   calculatePercentageChange 67 160 = fl (- 58.13) \<and>
   (0::real) \<le> calculatePercentageChange 150 100 \<and>
   calculatePercentageChange 67 160 \<le> (0::real)"
proof -
  note T = calculatePercentageChange_cases
  have a: "calculatePercentageChange 200 0 = 100"
    using T [of 0 200, THEN conjunct1] by simp
  have b: "calculatePercentageChange (- 3) 0 = 0"
    using T [of 0 "- 3", THEN conjunct2, THEN conjunct1] by simp
  have e1: "fdiv (Math_round (fmul (fmul (fdiv (fsub 150 100) 100) 100) 100)) 100 = 50"
    by (simp add: fl_eval)
  have e2: "fdiv (Math_round (fmul (fmul (fdiv (fsub 183 160) 160) 100) 100)) 100 = fl 14.37"
    by (simp add: fl_eval)
  have e3: "fdiv (Math_round (fmul (fmul (fdiv (fsub 67 160) 160) 100) 100)) 100
      = fl (- 58.13)"
    by (simp add: fl_eval)
  have c: "calculatePercentageChange 150 100 = 50"
    using T [of 100 150, THEN conjunct2, THEN conjunct2, THEN conjunct1] e1 by simp
  have d: "calculatePercentageChange 183 160 = fl 14.37"
    using T [of 160 183, THEN conjunct2, THEN conjunct2, THEN conjunct1] e2 by simp
  have e: "calculatePercentageChange 67 160 = fl (- 58.13)"
    using T [of 160 67, THEN conjunct2, THEN conjunct2, THEN conjunct1] e3 by simp
  have f: "(0::real) \<le> calculatePercentageChange 150 100"
    using T [of 100 150, THEN conjunct2, THEN conjunct2, THEN conjunct2, THEN conjunct1]
    by simp
  have g: "calculatePercentageChange 67 160 \<le> (0::real)"
    using T [of 160 67, THEN conjunct2, THEN conjunct2, THEN conjunct2, THEN conjunct2]
    by simp
  from a b c d e f g show ?thesis by (intro conjI)
qed

text \<open>
  C1 as stated fails for a negative \<open>previous\<close>: from \<open>- 5\<close> to \<open>10\<close> the amount grows by
  15, and the result is \<open>- 300\<close>. For a positive \<open>previous\<close> a small growth rounds to 0.
\<close>

theorem calculatePercentageChange_sign_counterexample:
  "(- 5 :: real) \<noteq> 0 \<and> (0::real) < 10 - (- 5) \<and> calculatePercentageChange 10 (- 5) = - 300 \<and>
   (0::real) < 100.00390625 - 100 \<and> calculatePercentageChange 100.00390625 100 = 0"
proof -
  have a: "calculatePercentageChange 10 (- 5) = - 300"
    unfolding calculatePercentageChange_def Let_def by (simp add: fl_eval)
  have b: "calculatePercentageChange 100.00390625 100 = 0"
    unfolding calculatePercentageChange_def Let_def by (simp add: fl_eval)
  from a b show ?thesis by simp
qed

text \<open>
  C2. With threshold \<open>t\<close>, \<open>determineTrend\<close> answers \<open>stable\<close> exactly when the absolute
  value of the change is below \<open>t\<close>; otherwise \<open>increasing\<close> for a positive and
  \<open>decreasing\<close> for a negative change. A change whose absolute value equals \<open>t\<close> is not
  \<open>stable\<close>. Without a threshold argument the threshold is 5.
\<close>

theorem determineTrend_classification:
  "(determineTrend c (Some t) = stable \<longleftrightarrow> \<bar>c\<bar> < t) \<and>
   (\<not> \<bar>c\<bar> < t \<and> 0 < c \<longrightarrow> determineTrend c (Some t) = increasing) \<and>
   (\<not> \<bar>c\<bar> < t \<and> c < 0 \<longrightarrow> determineTrend c (Some t) = decreasing) \<and>
   (\<bar>c\<bar> = t \<longrightarrow> determineTrend c (Some t) \<noteq> stable) \<and>
   determineTrend c None = determineTrend c (Some 5)"
  by (simp add: determineTrend_def Let_def)

theorem determineTrend_classification_witness:
  "determineTrend 5 (Some 5) = increasing \<and>
   determineTrend (- 5) (Some 5) = decreasing \<and>
   determineTrend 4.99 None = stable \<and>
   determineTrend 5 None \<noteq> stable"
  using determineTrend_classification [of 5 5]
        determineTrend_classification [of "- 5" 5]
        determineTrend_classification [of "4.99" 5]
        determineTrend_classification [of 5 5]
  by simp

section \<open>The previous period\<close>

lemma fetchPreviousPeriodData_request:
  "fetchPreviousPeriodData send startDate endDate =
     send (startDate - 1 - (daysInclusive startDate endDate - 1) + 1) (startDate - 1)"
proof -
  have "newDateISO endDate - newDateISO startDate = (endDate - startDate) * msPerDay"
    by (simp add: newDateISO_def algebra_simps)
  then have "real_of_int (newDateISO endDate - newDateISO startDate) / real_of_int msPerDay
        = real_of_int (endDate - startDate)"
    by (simp add: msPerDay_def)
  then have d: "Math_ceil (real_of_int (newDateISO endDate - newDateISO startDate) /
                  real_of_int msPerDay) = endDate - startDate"
    by (simp only: Math_ceil_def ceiling_of_int)
  have m: "msPerDay \<noteq> 0" by (simp add: msPerDay_def)
  have t: "\<And>k. toISODay (k * msPerDay) = k"
    using m by (simp add: toISODay_def)
  have e: "setDateBy (newDateISO startDate) (- 1) = (startDate - 1) * msPerDay"
    by (simp add: setDateBy_def newDateISO_def algebra_simps)
  have s: "setDateBy ((startDate - 1) * msPerDay) (- (endDate - startDate) + 1)
           = (startDate - 1 - (endDate - startDate) + 1) * msPerDay"
    by (simp add: setDateBy_def algebra_simps)
  show ?thesis
    unfolding fetchPreviousPeriodData_def fetchCostData_def Let_def d e s t daysInclusive_def
    by simp
qed

text \<open>
  C3. For the single day 20223 (2025-05-15) the period requested is from day 20223 to
  day 20222: its start is the start of the current period and lies after its end. The
  claim gives the day before, 20222 to 20222. In general the requested start is one
  day later than the start of a window as long as the current period
  (\<open>fetchPreviousPeriodData_request\<close>).
\<close>

theorem fetchPreviousPeriodData_single_day:
  "fetchPreviousPeriodData Pair 20223 20223 = (20223, 20222) \<and>
   (20223 - 1 - (daysInclusive 20223 20223 - 1), 20223 - 1) = (20222, 20222 :: int)"
  by (simp add: fetchPreviousPeriodData_def fetchCostData_def Let_def newDateISO_def
      msPerDay_def setDateBy_def toISODay_def Math_ceil_def daysInclusive_def)

section \<open>Error classification\<close>

lemma handle_classify:
  "e \<noteq> Falsy \<Longrightarrow>
     errorType (handleAWSError e) = errorTypeToString (classify (messageOf e)) \<and>
     retryable (handleAWSError e) = retryableClass (classify (messageOf e)) \<and>
     length (suggestions (handleAWSError e)) = 3 \<and> \<not> success (handleAWSError e)"
  by (simp add: handleAWSError_def classify_def errorPatterns_def createErrorResponse_def
      retryableClass_def Let_def)

text \<open>
  C7, as amended. A falsy error value gives the class \<open>UNKNOWN\<close> with no suggestions and
  \<open>retryable = false\<close>. For every other error value the class is the one the table
  gives for the message (the first pattern that occurs in it, \<open>UNKNOWN\<close> when none
  does), the response is retryable exactly for the classes \<open>THROTTLING\<close>,
  \<open>SERVICE_UNAVAILABLE\<close> and \<open>UNKNOWN\<close>, and it carries three suggestions. A message that
  contains \<open>AccessDenied\<close> and none of the three authentication patterns, which are
  tested first, is classified \<open>AUTHORIZATION\<close>, not retryable, with the three fixed
  suggestions of that class.
\<close>

theorem handleAWSError_classification:
  "(e = Falsy \<longrightarrow>
      handleAWSError e = \<lparr> success = False, error = ''Unknown error occurred'',
        errorType = ''UNKNOWN'', suggestions = [], retryable = False \<rparr>) \<and>
   (e \<noteq> Falsy \<longrightarrow>
      errorType (handleAWSError e) = errorTypeToString (classify (messageOf e)) \<and>
      retryable (handleAWSError e) = retryableClass (classify (messageOf e)) \<and>
      length (suggestions (handleAWSError e)) = 3) \<and>
   (e \<noteq> Falsy \<and> (\<forall>(pat, ty) \<in> set errorPatterns. \<not> str_includes (messageOf e) pat) \<longrightarrow>
      errorType (handleAWSError e) = ''UNKNOWN'' \<and> retryable (handleAWSError e)) \<and>
   (e \<noteq> Falsy \<and> str_includes (messageOf e) ''AccessDenied'' \<and>
    \<not> str_includes (messageOf e) ''The security token included in the request is invalid'' \<and>
    \<not> str_includes (messageOf e) ''SignatureDoesNotMatch'' \<and>
    \<not> str_includes (messageOf e) ''InvalidAccessKeyId'' \<longrightarrow>
      errorType (handleAWSError e) = ''AUTHORIZATION'' \<and>
      \<not> retryable (handleAWSError e) \<and>
      suggestions (handleAWSError e) =
        [''1. Grant Cost Explorer permissions to IAM user'',
         ''2. Required permissions: ce:GetCostAndUsage, ce:GetDimensionValues'',
         ''3. Ask administrator to review IAM policies''])"
proof (intro conjI impI)
  assume "e = Falsy"
  then show "handleAWSError e = \<lparr> success = False, error = ''Unknown error occurred'',
        errorType = ''UNKNOWN'', suggestions = [], retryable = False \<rparr>"
    by (simp add: handleAWSError_def createErrorResponse_def)
next
  assume "e \<noteq> Falsy"
  then show "errorType (handleAWSError e) = errorTypeToString (classify (messageOf e))"
    using handle_classify by blast
next
  assume "e \<noteq> Falsy"
  then show "retryable (handleAWSError e) = retryableClass (classify (messageOf e))"
    using handle_classify by blast
next
  assume "e \<noteq> Falsy"
  then show "length (suggestions (handleAWSError e)) = 3"
    using handle_classify by blast
next
  assume h: "e \<noteq> Falsy \<and> (\<forall>(pat, ty) \<in> set errorPatterns. \<not> str_includes (messageOf e) pat)"
  then have "classify (messageOf e) = UNKNOWN"
    by (simp add: classify_def errorPatterns_def)
  then show "errorType (handleAWSError e) = ''UNKNOWN''"
    using h handle_classify [of e] by simp
next
  assume h: "e \<noteq> Falsy \<and> (\<forall>(pat, ty) \<in> set errorPatterns. \<not> str_includes (messageOf e) pat)"
  then have "classify (messageOf e) = UNKNOWN"
    by (simp add: classify_def errorPatterns_def)
  then show "retryable (handleAWSError e)"
    using h handle_classify [of e] by (simp add: retryableClass_def)
next
  assume h: "e \<noteq> Falsy \<and> str_includes (messageOf e) ''AccessDenied'' \<and>
    \<not> str_includes (messageOf e) ''The security token included in the request is invalid'' \<and>
    \<not> str_includes (messageOf e) ''SignatureDoesNotMatch'' \<and>
    \<not> str_includes (messageOf e) ''InvalidAccessKeyId''"
  then show "errorType (handleAWSError e) = ''AUTHORIZATION''"
    by (simp add: handleAWSError_def createErrorResponse_def)
next
  assume h: "e \<noteq> Falsy \<and> str_includes (messageOf e) ''AccessDenied'' \<and>
    \<not> str_includes (messageOf e) ''The security token included in the request is invalid'' \<and>
    \<not> str_includes (messageOf e) ''SignatureDoesNotMatch'' \<and>
    \<not> str_includes (messageOf e) ''InvalidAccessKeyId''"
  then show "\<not> retryable (handleAWSError e)"
    by (simp add: handleAWSError_def createErrorResponse_def)
next
  assume h: "e \<noteq> Falsy \<and> str_includes (messageOf e) ''AccessDenied'' \<and>
    \<not> str_includes (messageOf e) ''The security token included in the request is invalid'' \<and>
    \<not> str_includes (messageOf e) ''SignatureDoesNotMatch'' \<and>
    \<not> str_includes (messageOf e) ''InvalidAccessKeyId''"
  then show "suggestions (handleAWSError e) =
        [''1. Grant Cost Explorer permissions to IAM user'',
         ''2. Required permissions: ce:GetCostAndUsage, ce:GetDimensionValues'',
         ''3. Ask administrator to review IAM policies'']"
    by (simp add: handleAWSError_def createErrorResponse_def)
qed

theorem handleAWSError_classification_witness:
  "handleAWSError Falsy = \<lparr> success = False, error = ''Unknown error occurred'',
        errorType = ''UNKNOWN'', suggestions = [], retryable = False \<rparr> \<and>
   errorType (handleAWSError (ErrorObject ''Error'' ''boom'')) = ''UNKNOWN'' \<and>
   retryable (handleAWSError (ErrorObject ''Error'' ''boom'')) \<and>
   errorType (handleAWSError (ErrorObject ''Error'' ''AccessDenied: no permission''))
     = ''AUTHORIZATION'' \<and>
   \<not> retryable (handleAWSError (ErrorObject ''Error'' ''AccessDenied: no permission'')) \<and>
   length (suggestions (handleAWSError (ErrorObject ''Error'' ''AccessDenied: no permission'')))
     = 3"
  using handleAWSError_classification [of Falsy]
        handleAWSError_classification [of "ErrorObject ''Error'' ''boom''"]
        handleAWSError_classification [of "ErrorObject ''Error'' ''AccessDenied: no permission''"]
  by (simp add: messageOf_def str_includes_def errorPatterns_def sublist_code classify_def
      retryableClass_def)

text \<open>
  C7 as stated fails for a falsy error value: the class is \<open>UNKNOWN\<close> and the response
  is not retryable.
\<close>

theorem handleAWSError_falsy_counterexample:
  "errorType (handleAWSError Falsy) = ''UNKNOWN'' \<and> \<not> retryable (handleAWSError Falsy)"
  by (simp add: handleAWSError_def createErrorResponse_def)

section \<open>Sorting in place and the summary\<close>

lemma sortByCostDesc_descending: "descendingByCost (sortByCostDesc xs)"
proof -
  have "sorted (map (\<lambda>s. - cost s) (sort_key (\<lambda>s. - cost s) xs))"
    by (rule sorted_sort_key)
  then show ?thesis
    by (simp add: descendingByCost_def sortByCostDesc_def sorted_map)
qed

lemma sortByCostDesc_mset: "mset (sortByCostDesc xs) = mset xs"
  by (simp add: sortByCostDesc_def)


lemma getTopServices_snd: "snd (getTopServices xs n) = sortByCostDesc xs"
  by (simp add: getTopServices_def Let_def)

lemma getTopServices_fst:
  "fst (getTopServices xs n) = take (case n of None \<Rightarrow> 10 | Some k \<Rightarrow> k) (sortByCostDesc xs)"
  by (simp add: getTopServices_def Let_def)

lemma generateCostSummaryTop_short:
  "monthOverMonth (trends d) = None \<or> monthOverMonth (trends d) = Some 0 \<Longrightarrow>
   generateCostSummaryTop h n d =
     (''Total cost for '' @ periodLabel h d @ '' was '' @
      formatCurrency h (totalCost d) (Some (currency d)) @ ''.'', services d)"
  by (auto simp add: generateCostSummaryTop_def Let_def)

lemma generateCostSummaryTop_long:
  "monthOverMonth (trends d) = Some c \<Longrightarrow> c \<noteq> 0 \<Longrightarrow>
   generateCostSummaryTop h n d =
     (''Total cost for '' @ periodLabel h d @ '' was '' @
      formatCurrency h (totalCost d) (Some (currency d)) @ '', showing '' @
      formatPercentage h c None @ '' '' @
      (if trend (trends d) = increasing then ''increase''
       else if trend (trends d) = decreasing then ''decrease'' else ''stable'') @
      '' compared to previous period. Top costs: '' @
      join '', '' (map (\<lambda>s. name s @ '' ('' @ formatCurrency h (cost s) None @ '', '' @
                       formatPercentage h (percentage s) (Some False) @ '')'')
                     (take n (sortByCostDesc (services d)))),
      sortByCostDesc (services d))"
  by (simp add: generateCostSummaryTop_def Let_def getTopServices_def)

text \<open>
  C10. \<open>getTopServices\<close> leaves the caller's array sorted by descending cost, with the
  same elements; on the array of a service of cost 1 followed by one of cost 2 the
  order after the call differs from the order before. \<open>generateCostOptimizationSuggestions\<close>
  leaves its argument sorted in the same way, and so does \<open>generateCostSummary\<close> (in both
  copies) whenever it reaches the listing of the top services, that is unless the
  month-over-month change is missing or 0.
\<close>

theorem getTopServices_sorts_in_place:
  "descendingByCost (snd (getTopServices xs n)) \<and>
   mset (snd (getTopServices xs n)) = mset xs \<and>
   snd (getTopServices
          [\<lparr>name = ''A'', cost = 1, percentage = 0, previousPeriodChange = None\<rparr>,
           \<lparr>name = ''B'', cost = 2, percentage = 0, previousPeriodChange = None\<rparr>] n) =
     [\<lparr>name = ''B'', cost = 2, percentage = 0, previousPeriodChange = None\<rparr>,
      \<lparr>name = ''A'', cost = 1, percentage = 0, previousPeriodChange = None\<rparr>] \<and>
   snd (generateCostOptimizationSuggestions h xs th) = sortByCostDesc xs \<and>
   snd (generateCostSummary h d) =
     (case monthOverMonth (trends d) of
        None \<Rightarrow> services d
      | Some c \<Rightarrow> if c = 0 then services d else sortByCostDesc (services d)) \<and>
   snd (generateCostSummary5 h d) =
     (case monthOverMonth (trends d) of
        None \<Rightarrow> services d
      | Some c \<Rightarrow> if c = 0 then services d else sortByCostDesc (services d))"
proof (intro conjI)
  show "descendingByCost (snd (getTopServices xs n))"
    by (simp add: getTopServices_snd sortByCostDesc_descending)
  show "mset (snd (getTopServices xs n)) = mset xs"
    by (simp add: getTopServices_snd sortByCostDesc_mset)
  show "snd (getTopServices
          [\<lparr>name = ''A'', cost = 1, percentage = 0, previousPeriodChange = None\<rparr>,
           \<lparr>name = ''B'', cost = 2, percentage = 0, previousPeriodChange = None\<rparr>] n) =
     [\<lparr>name = ''B'', cost = 2, percentage = 0, previousPeriodChange = None\<rparr>,
      \<lparr>name = ''A'', cost = 1, percentage = 0, previousPeriodChange = None\<rparr>]"
    by (simp add: getTopServices_snd sortByCostDesc_def)
  show "snd (generateCostOptimizationSuggestions h xs th) = sortByCostDesc xs"
    by (simp add: generateCostOptimizationSuggestions_def getTopServices_def Let_def)
  show "snd (generateCostSummary h d) =
     (case monthOverMonth (trends d) of
        None \<Rightarrow> services d
      | Some c \<Rightarrow> if c = 0 then services d else sortByCostDesc (services d))"
    by (simp add: generateCostSummary_def generateCostSummaryTop_short
        generateCostSummaryTop_long split: option.split)
  show "snd (generateCostSummary5 h d) =
     (case monthOverMonth (trends d) of
        None \<Rightarrow> services d
      | Some c \<Rightarrow> if c = 0 then services d else sortByCostDesc (services d))"
    by (simp add: generateCostSummary5_def generateCostSummaryTop_short
        generateCostSummaryTop_long split: option.split)
qed

text \<open>
  C9. With a month-over-month change that is present and equal to 0, the summary is
  the short one: total and period only, without the change, the trend word and the
  top services. The claim asks for the short summary only when no change is
  available.
\<close>

theorem generateCostSummary_zero_change:
  "generateCostSummary h
     \<lparr> period = p, totalCost = tc, currency = cur, services = xs,
       trends = \<lparr> monthOverMonth = Some 0, trend = t \<rparr>, summary = sm \<rparr> =
     (''Total cost for '' @ monthLongName h (pstart p) @ '' '' @ fullYearText h (pstart p) @
      '' was '' @ formatCurrency h tc (Some cur) @ ''.'', xs) \<and>
   generateCostSummary5 h
     \<lparr> period = p, totalCost = tc, currency = cur, services = xs,
       trends = \<lparr> monthOverMonth = Some 0, trend = t \<rparr>, summary = sm \<rparr> =
     (''Total cost for '' @ monthLongName h (pstart p) @ '' '' @ fullYearText h (pstart p) @
      '' was '' @ formatCurrency h tc (Some cur) @ ''.'', xs)"
  by (simp add: generateCostSummary_def generateCostSummary5_def generateCostSummaryTop_short
      periodLabel_def)

section \<open>Totals and shares of the processed data\<close>




text \<open>
  The sum the loops accumulate, with one rounding for each group, against the exact
  sum of amounts that are not negative.
\<close>

lemma unitRoundoff_bounds: "0 \<le> unitRoundoff" "unitRoundoff \<le> 1"
  by (simp_all add: unitRoundoff_def)

lemma halfMinSubnormal_nonneg: "0 \<le> halfMinSubnormal"
  by (simp add: halfMinSubnormal_def)

lemma fl_upper: "0 \<le> x \<Longrightarrow> fl x \<le> (1 + unitRoundoff) * x + halfMinSubnormal"
  using fl_rel [of x] by (simp add: algebra_simps unitRoundoff_def halfMinSubnormal_def)

lemma fl_lower: "0 \<le> x \<Longrightarrow> (1 - unitRoundoff) * x - halfMinSubnormal \<le> fl x"
  using fl_rel [of x] by (simp add: algebra_simps unitRoundoff_def halfMinSubnormal_def)

lemma sumGroups_upper:
  "0 \<le> acc \<Longrightarrow> (\<forall>g \<in> set gs. 0 \<le> parseAmount (Amount g)) \<Longrightarrow>
   sumGroups acc gs \<le>
     (1 + unitRoundoff) ^ length gs *
       (acc + sum_list (map (\<lambda>g. parseAmount (Amount g)) gs) +
        real (length gs) * halfMinSubnormal)"
proof (induction gs arbitrary: acc)
  case Nil
  then show ?case by simp
next
  case (Cons g gs)
  define u where "u = unitRoundoff"
  define t where "t = halfMinSubnormal"
  define c where "c = parseAmount (Amount g)"
  define S where "S = sum_list (map (\<lambda>g. parseAmount (Amount g)) gs)"
  define n where "n = real (length gs)"
  define P where "P = (1 + u) ^ length gs"
  have u0: "0 \<le> u" by (simp add: u_def unitRoundoff_bounds)
  have t0: "0 \<le> t" by (simp add: t_def halfMinSubnormal_nonneg)
  have c0: "0 \<le> c" using Cons.prems by (simp add: c_def)
  have S0: "0 \<le> S" unfolding S_def using Cons.prems by (intro sum_list_nonneg) auto
  have n0: "0 \<le> n" by (simp add: n_def)
  have P0: "0 \<le> P" using u0 by (simp add: P_def)
  have a0: "0 \<le> fadd acc c" using Cons.prems c0 by (simp add: fadd_def fl_nonneg)
  have au: "fadd acc c \<le> (1 + u) * (acc + c) + t"
    unfolding fadd_def u_def t_def using Cons.prems c0 by (intro fl_upper) simp
  have ih: "sumGroups (fadd acc c) gs \<le> P * (fadd acc c + S + n * t)"
    unfolding P_def S_def n_def u_def t_def using Cons.IH [OF a0] Cons.prems by simp
  have "0 \<le> u * (S + (n + 1) * t)"
    using u0 S0 n0 t0 by (intro mult_nonneg_nonneg add_nonneg_nonneg) simp_all
  then have "(1 + u) * (acc + c) + t + S + n * t \<le> (1 + u) * (acc + c + S + (n + 1) * t)"
    by (simp add: algebra_simps)
  with au have "fadd acc c + S + n * t \<le> (1 + u) * (acc + c + S + (n + 1) * t)"
    by linarith
  then have "P * (fadd acc c + S + n * t) \<le> P * ((1 + u) * (acc + c + S + (n + 1) * t))"
    using P0 by (rule mult_left_mono)
  with ih have "sumGroups (fadd acc c) gs \<le> P * ((1 + u) * (acc + c + S + (n + 1) * t))"
    by linarith
  moreover have "(1 + u) ^ length (g # gs) = P * (1 + u)"
    by (simp add: P_def)
  moreover have "real (length (g # gs)) = n + 1"
    by (simp add: n_def)
  moreover have "sum_list (map (\<lambda>g. parseAmount (Amount g)) (g # gs)) = c + S"
    by (simp add: c_def S_def)
  moreover have "sumGroups acc (g # gs) = sumGroups (fadd acc c) gs"
    by (simp add: c_def)
  ultimately show ?case
    unfolding u_def [symmetric] t_def [symmetric]
    by (simp only: mult.assoc add.assoc)
qed

lemma sumGroups_lower:
  "0 \<le> acc \<Longrightarrow> (\<forall>g \<in> set gs. 0 \<le> parseAmount (Amount g)) \<Longrightarrow>
   (1 - unitRoundoff) ^ length gs *
     (acc + sum_list (map (\<lambda>g. parseAmount (Amount g)) gs))
     - real (length gs) * halfMinSubnormal \<le> sumGroups acc gs"
proof (induction gs arbitrary: acc)
  case Nil
  then show ?case by simp
next
  case (Cons g gs)
  define u where "u = unitRoundoff"
  define t where "t = halfMinSubnormal"
  define c where "c = parseAmount (Amount g)"
  define S where "S = sum_list (map (\<lambda>g. parseAmount (Amount g)) gs)"
  define n where "n = real (length gs)"
  define P where "P = (1 - u) ^ length gs"
  have u0: "0 \<le> u" "u \<le> 1" by (simp_all add: u_def unitRoundoff_bounds)
  have t0: "0 \<le> t" by (simp add: t_def halfMinSubnormal_nonneg)
  have c0: "0 \<le> c" using Cons.prems by (simp add: c_def)
  have S0: "0 \<le> S" unfolding S_def using Cons.prems by (intro sum_list_nonneg) auto
  have P0: "0 \<le> P" using u0 by (simp add: P_def)
  have P1: "P \<le> 1" unfolding P_def using u0 by (intro power_le_one) simp_all
  have a0: "0 \<le> fadd acc c" using Cons.prems c0 by (simp add: fadd_def fl_nonneg)
  have al: "(1 - u) * (acc + c) - t \<le> fadd acc c"
    unfolding fadd_def u_def t_def using Cons.prems c0 by (intro fl_lower) simp
  have ih: "P * (fadd acc c + S) - n * t \<le> sumGroups (fadd acc c) gs"
    unfolding P_def S_def n_def u_def t_def using Cons.IH [OF a0] Cons.prems by simp
  have "0 \<le> u * S" using u0 S0 by simp
  then have "(1 - u) * (acc + c + S) - t \<le> (1 - u) * (acc + c) - t + S"
    by (simp add: algebra_simps)
  with al have "(1 - u) * (acc + c + S) - t \<le> fadd acc c + S"
    by linarith
  then have "P * ((1 - u) * (acc + c + S) - t) \<le> P * (fadd acc c + S)"
    using P0 by (rule mult_left_mono)
  moreover have "P * t \<le> 1 * t"
    using P1 t0 by (rule mult_right_mono)
  moreover have "P * ((1 - u) * (acc + c + S) - t) = P * ((1 - u) * (acc + c + S)) - P * t"
    by (simp add: right_diff_distrib)
  ultimately have "P * ((1 - u) * (acc + c + S)) - t \<le> P * (fadd acc c + S)"
    by linarith
  with ih have "P * ((1 - u) * (acc + c + S)) - (n + 1) * t \<le> sumGroups (fadd acc c) gs"
    by (simp add: algebra_simps)
  moreover have "(1 - u) ^ length (g # gs) = P * (1 - u)"
    by (simp add: P_def)
  moreover have "real (length (g # gs)) = n + 1"
    by (simp add: n_def)
  moreover have "sum_list (map (\<lambda>g. parseAmount (Amount g)) (g # gs)) = c + S"
    by (simp add: c_def S_def)
  moreover have "sumGroups acc (g # gs) = sumGroups (fadd acc c) gs"
    by (simp add: c_def)
  ultimately show ?case
    unfolding u_def [symmetric] t_def [symmetric]
    by (simp only: mult.assoc add.assoc)
qed

text \<open>
  \<open>processAndAnalyzeCostData\<close> in terms of its intermediate values: the total of its
  result is \<open>finalTotal\<close>, its services are \<open>sharedServices\<close> sorted by cost.
\<close>

lemma serviceLoop_eq:
  "serviceLoop prev gs (acc, t) = (acc @ map (serviceOf prev) gs, sumGroups t gs)"
  by (induction gs arbitrary: acc t) simp_all

lemma cost_serviceOf: "cost (serviceOf prev g) = parseAmount (Amount g)"
  by (simp add: serviceOf_def Let_def)


lemma loop_result:
  "(case Option.bind r Groups of None \<Rightarrow> ([], 0) | Some gs \<Rightarrow> serviceLoop prev gs ([], 0))
   = (map (serviceOf prev) (groupsOf r), groupSum r)"
  by (simp add: groupsOf_def groupSum_def serviceLoop_eq split: option.split)

lemma process_unfold:
  "processAndAnalyzeCostData h cur prev per =
     (tempDataOf cur prev per)
       \<lparr> services := snd (generateCostSummary h (tempDataOf cur prev per)),
         summary := fst (generateCostSummary h (tempDataOf cur prev per)) \<rparr>"
  unfolding processAndAnalyzeCostData_def Let_def loop_result
  apply (simp only: split_beta fst_conv snd_conv)
  apply (simp only: tempDataOf_def sharedServices_def momOf_def finalTotal_def declaredTotal_def)
  done




lemma process_totalCost:
  "totalCost (processAndAnalyzeCostData h cur prev per) = finalTotal cur"
  by (simp add: process_unfold tempDataOf_def)



lemma sharedServices_costs:
  "map cost (sharedServices cur prev) =
     map (\<lambda>g. parseAmount (Amount g)) (groupsOf (headOpt cur))"
  by (simp add: sharedServices_def comp_def cost_serviceOf)


lemma previousTotal_eq:
  "previousTotal r = (if declaredTotal r = 0 then groupSum r else declaredTotal r)"
  by (simp add: previousTotal_def declaredTotal_def groupSum_def groupsOf_def Let_def
      split: option.split)

lemmas report_eval =
  finalTotal_def declaredTotal_def groupSum_def groupsOf_def headOpt_def reportOf_def
  parseAmount_def firstKey_def

text \<open>
  C4. With a declared total of \<open>- 10\<close> and one group of amount 5 the total of the
  processed data is 5: for the current report \<open>processAndAnalyzeCostData\<close> keeps the
  declared total only when it is positive. The claim keeps every declared total that
  is not zero, and so does the same function for the previous report, whose total for
  this very report is \<open>- 10\<close>.
\<close>

theorem normalized_total_negative:
  "totalCost (processAndAnalyzeCostData sampleHost
      (reportOf (- 10) [(''Amazon Simple Storage Service'', 5)]) [] samplePeriod) = 5 \<and>
   previousTotal (headOpt (reportOf (- 10) [(''Amazon Simple Storage Service'', 5)])) = - 10"
  apply (simp add: process_totalCost previousTotal_eq report_eval)
  apply (simp add: fl_eval)
  done

text \<open>
  With a declared total of zero the total is the sum of the groups: 123.45 for groups
  of 100 and 23.45.
\<close>

lemma normalized_total_zero:
  "totalCost (processAndAnalyzeCostData sampleHost
      (reportOf 0 [(''Amazon Simple Storage Service'', 100), (''AWS Lambda'', 23.45)])
      [] samplePeriod) = fl 123.45"
  apply (simp add: process_totalCost report_eval)
  apply (simp add: fl_eval)
  done







section \<open>The period of a query\<close>

lemma daysInMonth_ge: "28 \<le> daysInMonth y m"
  by (simp add: daysInMonth_def)

lemma wholeMonth_le: "date_le (pstart (wholeMonth y m)) (pend (wholeMonth y m))"
  using daysInMonth_ge [of "dateYear y + (m - 1) div 12" "(m - 1) mod 12 + 1"]
  by (simp add: wholeMonth_def Let_def date_le_def getDate_def newDate_def)

lemma getMonthRange_le: "date_le (pstart (getMonthRange clk k)) (pend (getMonthRange clk k))"
proof -
  define Y where "Y = dateYear (nowYear clk) + (nowMonth clk + k) div 12"
  define M where "M = (nowMonth clk + k) mod 12 + 1"
  have s: "newDate (nowYear clk) (nowMonth clk + k) 1 = (Y, M, 1)"
    by (simp add: newDate_def Let_def Y_def M_def)
  have e: "newDate (nowYear clk) (nowMonth clk + k + 1) 0 = (Y, M, daysInMonth Y M)"
    by (simp add: newDate_def Let_def Y_def M_def)
  have d: "28 \<le> daysInMonth Y M" by (rule daysInMonth_ge)
  show ?thesis
  proof (cases "utcAhead clk")
    case False
    then show ?thesis
      using d by (simp add: getMonthRange_def Let_def s e toISODate_def date_le_def)
  next
    case True
    then show ?thesis
      using d by (simp add: getMonthRange_def Let_def s e toISODate_def date_le_def prevDay_def)
  qed
qed

lemma fallbackPeriod_le: "date_le (pstart (fallbackPeriod clk q)) (pend (fallbackPeriod clk q))"
  by (simp add: fallbackPeriod_def Let_def getMonthRange_le)

lemma date_le_refl: "date_le d d"
  by (simp add: date_le_def split: prod.split)

lemma chronoPeriod_le:
  "date_le (pstart (chronoPeriod clk chrono q)) (pend (chronoPeriod clk chrono q))"
  by (simp add: chronoPeriod_def fallbackPeriod_le wholeMonth_le date_le_refl split: list.split)

text \<open>
  The function is total, and every period it returns has its start not after its end,
  whatever the query, the clock, the time zone and the parser give.
\<close>

lemma extractPeriodFromQuery_start_le_end:
  "date_le (pstart (extractPeriodFromQuery clk chrono q))
           (pend (extractPeriodFromQuery clk chrono q))"
  by (simp add: extractPeriodFromQuery_def Let_def chronoPeriod_le wholeMonth_le
      split: option.split)

text \<open>
  When nothing else matches the result is \<open>getMonthRange clk 0\<close>. That is the current
  calendar month when local time is not ahead of UTC.
\<close>

lemma extractPeriodFromQuery_default:
  "monthOnlyMatch q = None \<or> hasYear q \<Longrightarrow> chrono q = [] \<Longrightarrow>
   \<not> str_includes (toLowerCase q) ''last month'' \<Longrightarrow>
   \<not> str_includes (toLowerCase q) ''previous month'' \<Longrightarrow>
   extractPeriodFromQuery clk chrono q = getMonthRange clk 0"
  by (auto simp add: extractPeriodFromQuery_def Let_def chronoPeriod_def fallbackPeriod_def)

lemma getMonthRange_calendar_month:
  "\<not> utcAhead clk \<Longrightarrow> 0 \<le> nowMonth clk \<Longrightarrow> nowMonth clk \<le> 11 \<Longrightarrow> 99 < nowYear clk \<Longrightarrow>
   getMonthRange clk 0 =
     \<lparr> pstart = (nowYear clk, nowMonth clk + 1, 1),
       pend = (nowYear clk, nowMonth clk + 1, daysInMonth (nowYear clk) (nowMonth clk + 1)) \<rparr>"
  by (simp add: getMonthRange_def Let_def newDate_def toISODate_def dateYear_def)

text \<open>
  C8. In a process whose local time is ahead of UTC, in August 2025, a query that
  matches nothing resolves to 2025-07-31 until 2025-08-30, not to the current calendar
  month: \<open>getMonthRange\<close> builds the first and last day at local midnight and prints them
  with \<open>toISOString\<close>, which gives the UTC day before. In a process that is not ahead of
  UTC the same query resolves to 2025-08-01 until 2025-08-31.
\<close>

theorem extractPeriodFromQuery_default_utc_ahead:
  "extractPeriodFromQuery \<lparr> nowYear = 2025, nowMonth = 7, utcAhead = True \<rparr> (\<lambda>q. [])
     ''total spend so far'' = \<lparr> pstart = (2025, 7, 31), pend = (2025, 8, 30) \<rparr> \<and>
   extractPeriodFromQuery \<lparr> nowYear = 2025, nowMonth = 7, utcAhead = False \<rparr> (\<lambda>q. [])
     ''total spend so far'' = \<lparr> pstart = (2025, 8, 1), pend = (2025, 8, 31) \<rparr>"
  by code_simp







end
